theory Spec2Isabelle
  imports Complex_Main
begin

section \<open>Python values and the operations the benchmark applies to them\<close>

text \<open>
  The values \<^verbatim>\<open>response.json()\<close> can return, which are also the values of the request
  body. A \<^verbatim>\<open>dict\<close> is the list of its items (its keys are distinct, so \<open>map_of\<close> finds
  the one item of a key). Python floats are modelled as reals: rounding, infinities and
  NaN are outside the model.
\<close>

datatype pyval =
    PNone
  | PBool bool
  | PInt int
  | PFloat real
  | PStr string
  | PList "pyval list"
  | PDict "(string \<times> pyval) list"

text \<open>The exceptions that the modelled operations raise.\<close>

datatype py_error =
    RequestException
  | HTTPError nat
  | JSONDecodeError
  | KeyError pyval
  | IndexError
  | TypeError
  | AttributeError
  | ZeroDivisionError
  | OverflowError


text \<open>Sequencing of statements that may raise: the first exception ends the block.\<close>

fun and_then :: "py_error + 'a \<Rightarrow> ('a \<Rightarrow> py_error + 'b) \<Rightarrow> py_error + 'b" where
  "and_then (Inl e) f = Inl e"
| "and_then (Inr x) f = f x"

text \<open>\<^verbatim>\<open>obj[key]\<close> for a string key: only a dict accepts it.\<close>

fun py_getitem :: "pyval \<Rightarrow> string \<Rightarrow> py_error + pyval" where
  "py_getitem (PDict kvs) k =
     (case map_of kvs k of None \<Rightarrow> Inl (KeyError (PStr k)) | Some v \<Rightarrow> Inr v)"
| "py_getitem _ k = Inl TypeError"

text \<open>\<^verbatim>\<open>obj[0]\<close>: the first element of a list, the first character of a string; a dict
  decoded from JSON has string keys only, so the key \<open>0\<close> is missing.\<close>

fun py_getitem0 :: "pyval \<Rightarrow> py_error + pyval" where
  "py_getitem0 (PList []) = Inl IndexError"
| "py_getitem0 (PList (x # xs)) = Inr x"
| "py_getitem0 (PStr []) = Inl IndexError"
| "py_getitem0 (PStr (c # cs)) = Inr (PStr [c])"
| "py_getitem0 (PDict kvs) = Inl (KeyError (PInt 0))"
| "py_getitem0 _ = Inl TypeError"

text \<open>\<^verbatim>\<open>obj.get(key, default)\<close>: a method of dicts only.\<close>

fun py_get :: "pyval \<Rightarrow> string \<Rightarrow> pyval \<Rightarrow> py_error + pyval" where
  "py_get (PDict kvs) k d = Inr (case map_of kvs k of None \<Rightarrow> d | Some v \<Rightarrow> v)"
| "py_get _ k d = Inl AttributeError"

text \<open>\<^verbatim>\<open>len(obj)\<close>.\<close>

fun py_len :: "pyval \<Rightarrow> py_error + nat" where
  "py_len (PStr s) = Inr (length s)"
| "py_len (PList xs) = Inr (length xs)"
| "py_len (PDict kvs) = Inr (length kvs)"
| "py_len _ = Inl TypeError"

text \<open>The number a value stands for in arithmetic (\<^verbatim>\<open>bool\<close> is a subclass of \<^verbatim>\<open>int\<close>).\<close>

fun py_number :: "pyval \<Rightarrow> real option" where
  "py_number (PInt n) = Some (real_of_int n)"
| "py_number (PFloat r) = Some r"
| "py_number (PBool b) = Some (if b then 1 else 0)"
| "py_number _ = None"

text \<open>An \<^verbatim>\<open>int\<close> that meets a float is converted to a float first, rounding to the nearest
  double: the largest double is \<open>2 ^ 1024 - 2 ^ 971\<close>, so from \<open>2 ^ 1024 - 2 ^ 970\<close> on the
  conversion raises \<^verbatim>\<open>OverflowError\<close>.\<close>

definition float_limit :: int where
  "float_limit = 2 ^ 1024 - 2 ^ 970"

fun float_overflows :: "pyval \<Rightarrow> bool" where
  "float_overflows (PInt n) = (float_limit \<le> \<bar>n\<bar>)"
| "float_overflows _ = False"

text \<open>\<^verbatim>\<open>x / d\<close> with a float \<open>d\<close>: a non-number is a \<^verbatim>\<open>TypeError\<close>; the conversion of
  \<open>x\<close> to a float comes next and may overflow; then a zero divisor is a
  \<^verbatim>\<open>ZeroDivisionError\<close>. The quotient itself is taken in the reals.\<close>

definition py_truediv :: "pyval \<Rightarrow> real \<Rightarrow> py_error + real" where
  "py_truediv x d =
     (case py_number x of
        None \<Rightarrow> Inl TypeError
      | Some v \<Rightarrow>
          if float_overflows x then Inl OverflowError
          else if d = 0 then Inl ZeroDivisionError
          else Inr (v / d))"

text \<open>\<^verbatim>\<open>str(n)\<close> for an integer, as the f-string of the base URL formats the port.\<close>

function str_nat :: "nat \<Rightarrow> string" where
  "str_nat n =
     (if n < 10 then [''0123456789'' ! n]
      else str_nat (n div 10) @ [''0123456789'' ! (n mod 10)])"
  by pat_completeness auto
termination
  by (relation "measure id") auto

definition str_int :: "int \<Rightarrow> string" where
  "str_int i = (if i < 0 then CHR ''-'' # str_nat (nat (- i)) else str_nat (nat i))"

section \<open>The server and the process, as seen by the benchmark\<close>

text \<open>What an HTTP call comes back with: a transport failure
  (\<^verbatim>\<open>requests.RequestException\<close>), or a response with its status code and what
  \<^verbatim>\<open>response.json()\<close> makes of its body (\<open>None\<close> when the body is not JSON).\<close>

datatype http_outcome =
    ConnectionFailed
  | Response nat "pyval option"

text \<open>Everything one call of \<^verbatim>\<open>measure_inference\<close> reads from outside: the two clock
  samples (seconds), the two resident-set sizes (bytes) and the outcome of the POST.\<close>

record trial_env =
  start_time :: real
  start_rss :: nat
  post_outcome :: http_outcome
  end_time :: real
  end_rss :: nat

text \<open>The outside world of a whole run: the outcome of the \<open>k\<close>-th GET and the
  environment of the \<open>k\<close>-th POST, counted from 0.\<close>

record server =
  probe_reply :: "nat \<Rightarrow> http_outcome"
  trial_reply :: "nat \<Rightarrow> trial_env"

text \<open>The requests sent so far are threaded through every call, oldest first.\<close>

datatype request =
    GET string
  | POST string pyval

fun is_POST :: "request \<Rightarrow> bool" where
  "is_POST (POST url body) = True"
| "is_POST (GET url) = False"

definition posts :: "request list \<Rightarrow> nat" where
  "posts sent = length (filter is_POST sent)"

definition gets :: "request list \<Rightarrow> nat" where
  "gets sent = length (filter (\<lambda>r. \<not> is_POST r) sent)"

section \<open>The benchmark object\<close>

text \<open>A measurement is a Python dict with a fixed choice of keys; a key that the dict does
  not have is \<open>None\<close> here. The \<open>error\<close> entry holds \<^verbatim>\<open>str(e)\<close>: the model keeps the
  exception \<open>e\<close> whose text it is.\<close>

record measurement =
  prompt_length :: nat
  response_length :: "nat option"
  total_tokens :: "pyval option"
  latency :: "real option"
  tokens_per_second :: "real option"
  memory_usage_mb :: "real option"
  success :: bool
  error :: "py_error option"

record benchmark =
  base_url :: string
  results :: "measurement list"

definition init :: "string \<Rightarrow> int \<Rightarrow> benchmark" where
  "init host port =
     \<lparr>base_url = ''http://'' @ host @ '':'' @ str_int port @ ''/v1'', results = []\<rparr>"

definition check_connection ::
    "server \<Rightarrow> benchmark \<Rightarrow> request list \<Rightarrow> bool \<times> request list" where
  "check_connection srv self sent =
     ((case probe_reply srv (gets sent) of
         Response status_code body \<Rightarrow> status_code = 200
       | ConnectionFailed \<Rightarrow> False),
      sent @ [GET (base_url self @ ''/models'')])"

definition payload :: "string \<Rightarrow> int \<Rightarrow> pyval" where
  "payload prompt max_tokens =
     PDict [(''messages'', PList [PDict [(''role'', PStr ''user''), (''content'', PStr prompt)]]),
            (''max_tokens'', PInt max_tokens),
            (''temperature'', PFloat (7 / 10)),
            (''stream'', PBool False)]"

definition completion_request :: "benchmark \<Rightarrow> string \<Rightarrow> int \<Rightarrow> request" where
  "completion_request self prompt max_tokens =
     POST (base_url self @ ''/chat/completions'') (payload prompt max_tokens)"

text \<open>\<^verbatim>\<open>response.raise_for_status()\<close> raises for the 4xx and 5xx codes.\<close>

definition raise_for_status :: "nat \<Rightarrow> py_error + unit" where
  "raise_for_status status_code =
     (if 400 \<le> status_code \<and> status_code < 600 then Inl (HTTPError status_code) else Inr ())"

text \<open>The three reads of the decoded response: the generated text and the token count.\<close>

definition read_result :: "pyval \<Rightarrow> py_error + pyval \<times> pyval" where
  "read_result result =
     and_then (py_getitem result ''choices'') (\<lambda>choices.
     and_then (py_getitem0 choices) (\<lambda>choice.
     and_then (py_getitem choice ''message'') (\<lambda>message.
     and_then (py_getitem message ''content'') (\<lambda>generated_text.
     and_then (py_get result ''usage'' (PDict [])) (\<lambda>usage.
     and_then (py_get usage ''total_tokens'' (PInt 0)) (\<lambda>total_tokens.
     Inr (generated_text, total_tokens)))))))"

text \<open>The dict of a successful call; its entries are evaluated in the order written, so
  \<^verbatim>\<open>len(generated_text)\<close> raises before the division does.\<close>

definition success_record ::
    "string \<Rightarrow> trial_env \<Rightarrow> pyval \<Rightarrow> pyval \<Rightarrow> py_error + measurement" where
  "success_record prompt env generated_text tokens =
     and_then (py_len generated_text) (\<lambda>n.
     and_then (py_truediv tokens (end_time env - start_time env)) (\<lambda>tps.
     Inr \<lparr>prompt_length = length prompt,
          response_length = Some n,
          total_tokens = Some tokens,
          latency = Some (end_time env - start_time env),
          tokens_per_second = Some tps,
          memory_usage_mb =
            Some (real (end_rss env) / 1024 / 1024 - real (start_rss env) / 1024 / 1024),
          success = True,
          error = None\<rparr>))"

text \<open>The body of the \<^verbatim>\<open>try\<close> statement.\<close>

definition try_block :: "string \<Rightarrow> trial_env \<Rightarrow> py_error + measurement" where
  "try_block prompt env =
     (case post_outcome env of
        ConnectionFailed \<Rightarrow> Inl RequestException
      | Response status_code body \<Rightarrow>
          and_then (raise_for_status status_code) (\<lambda>u.
          (case body of
             None \<Rightarrow> Inl JSONDecodeError
           | Some result \<Rightarrow>
               and_then (read_result result) (\<lambda>(generated_text, tokens).
               success_record prompt env generated_text tokens))))"

definition failure_record :: "string \<Rightarrow> py_error \<Rightarrow> measurement" where
  "failure_record prompt e =
     \<lparr>prompt_length = length prompt,
      response_length = None,
      total_tokens = None,
      latency = None,
      tokens_per_second = None,
      memory_usage_mb = None,
      success = False,
      error = Some e\<rparr>"

text \<open>\<^verbatim>\<open>except Exception\<close> catches every exception of the block, so the call always
  returns a measurement.\<close>

definition measure_env :: "string \<Rightarrow> trial_env \<Rightarrow> measurement" where
  "measure_env prompt env =
     (case try_block prompt env of
        Inr m \<Rightarrow> m
      | Inl e \<Rightarrow> failure_record prompt e)"

definition measure_inference ::
    "server \<Rightarrow> benchmark \<Rightarrow> string \<Rightarrow> int \<Rightarrow> request list \<Rightarrow> measurement \<times> request list" where
  "measure_inference srv self prompt max_tokens sent =
     (measure_env prompt (trial_reply srv (posts sent)),
      sent @ [completion_request self prompt max_tokens])"

text \<open>One pass of the inner loop body: the call with the default \<^verbatim>\<open>max_tokens=100\<close>, and
  the append when the measurement is a success.\<close>

definition trial ::
    "server \<Rightarrow> string \<Rightarrow> benchmark \<times> request list \<Rightarrow> benchmark \<times> request list" where
  "trial srv prompt st =
     (case st of (self, sent) \<Rightarrow>
        (case measure_inference srv self prompt 100 sent of (result, sent') \<Rightarrow>
           (if success result then self\<lparr>results := results self @ [result]\<rparr> else self, sent')))"

text \<open>\<^verbatim>\<open>for _ in range(iterations)\<close>, with the number of passes left.\<close>

fun inner_loop ::
    "server \<Rightarrow> string \<Rightarrow> nat \<Rightarrow> benchmark \<times> request list \<Rightarrow> benchmark \<times> request list" where
  "inner_loop srv prompt 0 st = st"
| "inner_loop srv prompt (Suc n) st = inner_loop srv prompt n (trial srv prompt st)"

text \<open>\<^verbatim>\<open>for prompt in prompts\<close>; \<^verbatim>\<open>range(iterations)\<close> is empty for a negative count.\<close>

fun outer_loop ::
    "server \<Rightarrow> string list \<Rightarrow> int \<Rightarrow> benchmark \<times> request list \<Rightarrow> benchmark \<times> request list" where
  "outer_loop srv [] iterations st = st"
| "outer_loop srv (prompt # prompts) iterations st =
     outer_loop srv prompts iterations (inner_loop srv prompt (nat iterations) st)"

text \<open>The two \<^verbatim>\<open>print\<close> calls and the progress bar write to the console only and are
  left out.\<close>

text \<open>The value the call returns (Python's \<^verbatim>\<open>None\<close> is \<open>None\<close>), the object and the
  list of requests sent so far.\<close>

definition run_benchmark ::
    "server \<Rightarrow> benchmark \<Rightarrow> string list \<Rightarrow> int \<Rightarrow> request list
       \<Rightarrow> measurement list option \<times> benchmark \<times> request list" where
  "run_benchmark srv self prompts iterations sent =
     (case check_connection srv self sent of (ok, sent') \<Rightarrow>
        if \<not> ok then (None, self, sent')
        else (case outer_loop srv prompts iterations (self, sent') of
                (self', sent'') \<Rightarrow> (None, self', sent'')))"

section \<open>The vocabulary of the properties\<close>

text \<open>The trial plan: for each prompt in sequence order, the prompt repeated
  \<open>iterations\<close> times.\<close>

definition trial_plan :: "string list \<Rightarrow> int \<Rightarrow> string list" where
  "trial_plan prompts iterations = concat (map (replicate (nat iterations)) prompts)"

text \<open>The measurements of the trials of a plan, in execution order, when the first of them is
  the \<open>k\<close>-th POST: what each call of \<^verbatim>\<open>measure_inference\<close> returns, kept or not.\<close>

definition trial_outcomes :: "server \<Rightarrow> nat \<Rightarrow> string list \<Rightarrow> measurement list" where
  "trial_outcomes srv k plan = map (\<lambda>(i, p). measure_env p (trial_reply srv i)) (enumerate k plan)"

text \<open>The completion requests of the trials of a plan, as the runner issues them.\<close>

definition trial_requests :: "benchmark \<Rightarrow> string list \<Rightarrow> request list" where
  "trial_requests self plan = map (\<lambda>p. completion_request self p 100) plan"

text \<open>The object and the requests sent after the trials of a plan, stated without the loops.\<close>

definition after_trials ::
    "server \<Rightarrow> string list \<Rightarrow> benchmark \<times> request list \<Rightarrow> benchmark \<times> request list" where
  "after_trials srv plan st =
     (case st of (self, sent) \<Rightarrow>
        (self\<lparr>results := results self @ filter success (trial_outcomes srv (posts sent) plan)\<rparr>,
         sent @ trial_requests self plan))"

text \<open>The connectivity probe does not succeed: a transport error or a status other than 200.\<close>

definition probe_fails :: "server \<Rightarrow> request list \<Rightarrow> bool" where
  "probe_fails srv sent =
     (case probe_reply srv (gets sent) of
        ConnectionFailed \<Rightarrow> True
      | Response status_code body \<Rightarrow> status_code \<noteq> 200)"

text \<open>The successful measurements of one run, in execution order.\<close>

definition new_measurements :: "server \<Rightarrow> string list \<Rightarrow> int \<Rightarrow> request list \<Rightarrow> measurement list" where
  "new_measurements srv prompts iterations sent =
     (if probe_fails srv sent then []
      else filter success (trial_outcomes srv (posts sent) (trial_plan prompts iterations)))"

text \<open>The \<^verbatim>\<open>max_tokens\<close> entry of the body of a request.\<close>

definition request_max_tokens :: "request \<Rightarrow> pyval option" where
  "request_max_tokens r =
     (case r of
        GET url \<Rightarrow> None
      | POST url body \<Rightarrow> (case py_getitem body ''max_tokens'' of Inl e \<Rightarrow> None | Inr v \<Rightarrow> Some v))"

text \<open>The \<^verbatim>\<open>usage.total_tokens\<close> entry that a decoded response carries, if any.\<close>

definition reported_total_tokens :: "pyval \<Rightarrow> pyval option" where
  "reported_total_tokens result =
     (case result of
        PDict kvs \<Rightarrow>
          (case map_of kvs ''usage'' of
             Some (PDict usage) \<Rightarrow> map_of usage ''total_tokens''
           | _ \<Rightarrow> None)
      | _ \<Rightarrow> None)"






section \<open>Concrete servers and responses\<close>

text \<open>The scenario of a server that answers \<^verbatim>\<open>hello\<close> with 5 tokens after one second, and
  its variations.\<close>

definition hello_body :: pyval where
  "hello_body =
     PDict [(''choices'', PList [PDict [(''message'', PDict [(''content'', PStr ''hello'')])]]),
            (''usage'', PDict [(''total_tokens'', PInt 5)])]"

definition bare_body :: pyval where
  "bare_body =
     PDict [(''choices'', PList [PDict [(''message'', PDict [(''content'', PStr ''hello'')])]])]"

definition hello_env :: trial_env where
  "hello_env = \<lparr>start_time = 100, start_rss = 52428800,
     post_outcome = Response 200 (Some hello_body), end_time = 101, end_rss = 53477376\<rparr>"

definition bare_env :: trial_env where
  "bare_env = hello_env\<lparr>post_outcome := Response 200 (Some bare_body), end_time := 102\<rparr>"

definition refused_env :: trial_env where
  "refused_env = hello_env\<lparr>post_outcome := ConnectionFailed\<rparr>"

definition error_env :: trial_env where
  "error_env = hello_env\<lparr>post_outcome := Response 500 None\<rparr>"

definition malformed_env :: trial_env where
  "malformed_env = hello_env\<lparr>post_outcome := Response 200 (Some (PDict []))\<rparr>"

definition instant_env :: trial_env where
  "instant_env = hello_env\<lparr>end_time := 100\<rparr>"




definition not_modified_env :: trial_env where
  "not_modified_env = hello_env\<lparr>post_outcome := Response 304 (Some hello_body)\<rparr>"

definition always :: "trial_env \<Rightarrow> server" where
  "always env = \<lparr>probe_reply = (\<lambda>k. Response 200 None), trial_reply = (\<lambda>k. env)\<rparr>"

definition flaky_server :: server where
  "flaky_server = \<lparr>probe_reply = (\<lambda>k. Response 200 None),
     trial_reply = (\<lambda>k. if k = 1 then error_env else if k = 2 then bare_env else hello_env)\<rparr>"

definition down_server :: server where
  "down_server = \<lparr>probe_reply = (\<lambda>k. if k = 0 then ConnectionFailed else Response 503 None),
     trial_reply = (\<lambda>k. hello_env)\<rparr>"

definition local_bench :: benchmark where
  "local_bench = \<lparr>base_url = ''http://localhost:1234/v1'', results = []\<rparr>"

section \<open>The steps of one inference call\<close>

lemma and_then_Inr: "and_then x f = Inr y \<longleftrightarrow> (\<exists>a. x = Inr a \<and> f a = Inr y)"
  by (cases x) simp_all

lemma raise_for_status_Inr: "raise_for_status st = Inr u \<longleftrightarrow> \<not> (400 \<le> st \<and> st < 600)"
  by (simp add: raise_for_status_def)

lemma py_truediv_Inr:
  "py_truediv x d = Inr q \<longleftrightarrow>
     (\<exists>v. py_number x = Some v \<and> \<not> float_overflows x \<and> d \<noteq> 0 \<and> q = v / d)"
  by (auto simp: py_truediv_def split: option.splits)

lemma success_record_Inr:
  "success_record prompt env text tokens = Inr m \<longleftrightarrow>
     (\<exists>n v. py_len text = Inr n \<and> py_number tokens = Some v \<and> \<not> float_overflows tokens
        \<and> end_time env - start_time env \<noteq> 0
        \<and> m = \<lparr>prompt_length = length prompt,
                response_length = Some n,
                total_tokens = Some tokens,
                latency = Some (end_time env - start_time env),
                tokens_per_second = Some (v / (end_time env - start_time env)),
                memory_usage_mb =
                  Some (real (end_rss env) / 1024 / 1024 - real (start_rss env) / 1024 / 1024),
                success = True,
                error = None\<rparr>)"
  unfolding success_record_def and_then_Inr py_truediv_Inr by auto

lemma try_block_Inr:
  "try_block prompt env = Inr m \<longleftrightarrow>
     (\<exists>st result text tokens. post_outcome env = Response st (Some result)
        \<and> \<not> (400 \<le> st \<and> st < 600)
        \<and> read_result result = Inr (text, tokens)
        \<and> success_record prompt env text tokens = Inr m)"
  unfolding try_block_def
  by (auto simp: and_then_Inr raise_for_status_Inr split: http_outcome.splits option.splits)


lemma success_try_block:
  "success (measure_env prompt env) \<Longrightarrow> try_block prompt env = Inr (measure_env prompt env)"
  by (cases "try_block prompt env") (simp_all add: measure_env_def failure_record_def)

lemma read_result_no_usage:
  "read_result result = Inr (text, tokens) \<Longrightarrow> reported_total_tokens result = None
     \<Longrightarrow> tokens = PInt 0"
  unfolding read_result_def and_then_Inr reported_total_tokens_def
  by (cases result) (auto split: option.splits pyval.splits)






section \<open>The loops of a run\<close>

lemma posts_append: "posts (xs @ ys) = posts xs + posts ys"
  by (simp add: posts_def)

lemma posts_trial_requests: "posts (trial_requests self plan) = length plan"
  by (induction plan) (simp_all add: posts_def trial_requests_def completion_request_def)

lemma trial_outcomes_Nil: "trial_outcomes srv k [] = []"
  by (simp add: trial_outcomes_def)

lemma trial_outcomes_Cons:
  "trial_outcomes srv k (p # plan) = measure_env p (trial_reply srv k) # trial_outcomes srv (Suc k) plan"
  by (simp add: trial_outcomes_def)

lemma trial_outcomes_append:
  "trial_outcomes srv k (xs @ ys) = trial_outcomes srv k xs @ trial_outcomes srv (k + length xs) ys"
  by (induction xs arbitrary: k) (simp_all add: trial_outcomes_Nil trial_outcomes_Cons)

lemma trial_requests_append:
  "trial_requests self (xs @ ys) = trial_requests self xs @ trial_requests self ys"
  by (simp add: trial_requests_def)

lemma trial_requests_results:
  "trial_requests (self\<lparr>results := rs\<rparr>) plan = trial_requests self plan"
  by (simp add: trial_requests_def completion_request_def)

lemma after_trials_Nil: "after_trials srv [] st = st"
  by (cases st) (simp add: after_trials_def trial_outcomes_Nil trial_requests_def)

lemma after_trials_append:
  "after_trials srv (xs @ ys) st = after_trials srv ys (after_trials srv xs st)"
  by (cases st)
     (simp add: after_trials_def trial_outcomes_append trial_requests_append
        trial_requests_results posts_append posts_trial_requests)

lemma trial_after_trials: "trial srv p st = after_trials srv [p] st"
  by (cases st)
     (simp add: trial_def measure_inference_def after_trials_def trial_outcomes_Cons
        trial_outcomes_Nil trial_requests_def)

lemma inner_loop_after_trials:
  "inner_loop srv p n st = after_trials srv (replicate n p) st"
proof (induction n arbitrary: st)
  case 0
  show ?case by (simp add: after_trials_Nil)
next
  case (Suc n)
  have "after_trials srv (replicate (Suc n) p) st
      = after_trials srv (replicate n p) (after_trials srv [p] st)"
    using after_trials_append [of srv "[p]" "replicate n p" st] by simp
  then show ?case by (simp add: Suc.IH trial_after_trials)
qed

lemma outer_loop_after_trials:
  "outer_loop srv prompts iterations st = after_trials srv (trial_plan prompts iterations) st"
proof (induction prompts arbitrary: st)
  case Nil
  show ?case by (simp add: trial_plan_def after_trials_Nil)
next
  case (Cons p ps)
  have "trial_plan (p # ps) iterations = replicate (nat iterations) p @ trial_plan ps iterations"
    by (simp add: trial_plan_def)
  then show ?case
    by (simp add: Cons.IH inner_loop_after_trials after_trials_append)
qed

lemma check_connection_eq:
  "check_connection srv self sent =
     (\<not> probe_fails srv sent, sent @ [GET (base_url self @ ''/models'')])"
  by (simp add: check_connection_def probe_fails_def split: http_outcome.splits)

lemma run_benchmark_unreachable:
  "probe_fails srv sent \<Longrightarrow>
     run_benchmark srv self prompts iterations sent =
       (None, self, sent @ [GET (base_url self @ ''/models'')])"
  by (simp add: run_benchmark_def check_connection_eq)

lemma run_benchmark_reachable:
  "\<not> probe_fails srv sent \<Longrightarrow>
     run_benchmark srv self prompts iterations sent =
       (None,
        self\<lparr>results := results self
           @ filter success (trial_outcomes srv (posts sent) (trial_plan prompts iterations))\<rparr>,
        sent @ GET (base_url self @ ''/models'') # trial_requests self (trial_plan prompts iterations))"
  by (simp add: run_benchmark_def check_connection_eq outer_loop_after_trials after_trials_def
        posts_append posts_def)

lemma run_benchmark_results:
  "results (fst (snd (run_benchmark srv self prompts iterations sent)))
     = results self @ new_measurements srv prompts iterations sent"
  by (cases "probe_fails srv sent")
     (simp_all add: run_benchmark_unreachable run_benchmark_reachable new_measurements_def)

subsection \<open>The order of the plan\<close>

lemma length_trial_plan:
  "length (trial_plan prompts iterations) = nat iterations * length prompts"
  by (induction prompts) (simp_all add: trial_plan_def)

lemma concat_replicate_nth:
  "i < length xs \<Longrightarrow> j < n \<Longrightarrow> concat (map (replicate n) xs) ! (i * n + j) = xs ! i"
proof (induction xs arbitrary: i)
  case Nil
  then show ?case by simp
next
  case (Cons x xs)
  show ?case
  proof (cases i)
    case 0
    with Cons.prems show ?thesis by (simp add: nth_append)
  next
    case (Suc i')
    with Cons.prems have "i' < length xs" by simp
    then have "concat (map (replicate n) xs) ! (i' * n + j) = xs ! i'"
      using Cons.IH Cons.prems(2) by blast
    moreover have "Suc i' * n + j = n + (i' * n + j)" by simp
    ultimately show ?thesis
      using Suc by (simp add: nth_append del: mult_Suc)
  qed
qed

lemma trial_outcomes_nth:
  "k < length plan \<Longrightarrow>
     trial_outcomes srv k0 plan ! k = measure_env (plan ! k) (trial_reply srv (k0 + k))"
  by (simp add: trial_outcomes_def nth_enumerate_eq)

lemma length_trial_outcomes: "length (trial_outcomes srv k0 plan) = length plan"
  by (simp add: trial_outcomes_def)

lemma plan_index: 
  assumes "i < length prompts" and "j < nat iterations"
  shows "i * nat iterations + j < length (trial_plan prompts iterations)"
proof -
  have "i * nat iterations + j < i * nat iterations + nat iterations"
    using assms(2) by simp
  also have "\<dots> = Suc i * nat iterations" by simp
  also have "\<dots> \<le> length prompts * nat iterations"
    using assms(1) by (intro mult_le_mono1) simp
  finally show ?thesis by (simp add: length_trial_plan mult.commute)
qed

lemma trial_outcomes_plan_nth:
  assumes "i < length prompts" and "j < nat iterations"
  shows "trial_outcomes srv k0 (trial_plan prompts iterations) ! (i * nat iterations + j)
           = measure_env (prompts ! i) (trial_reply srv (k0 + i * nat iterations + j))"
proof -
  have "trial_plan prompts iterations ! (i * nat iterations + j) = prompts ! i"
    using assms by (simp add: trial_plan_def concat_replicate_nth)
  then show ?thesis
    using plan_index [OF assms] by (simp add: trial_outcomes_nth add.assoc)
qed

lemma all_trials_succeed:
  assumes "\<forall>i<length prompts. \<forall>j<nat iterations.
             success (measure_env (prompts ! i) (trial_reply srv (k0 + i * nat iterations + j)))"
  shows "filter success (trial_outcomes srv k0 (trial_plan prompts iterations))
           = trial_outcomes srv k0 (trial_plan prompts iterations)"
proof -
  let ?n = "nat iterations"
  let ?out = "trial_outcomes srv k0 (trial_plan prompts iterations)"
  have "success (?out ! k)" if k: "k < length ?out" for k
  proof -
    from k have k': "k < ?n * length prompts"
      by (simp add: length_trial_outcomes length_trial_plan)
    then have n: "0 < ?n" by (cases "?n = 0") simp_all
    have j: "k mod ?n < ?n" using n by simp
    have i: "k div ?n < length prompts"
      using k' n by (simp add: less_mult_imp_div_less mult.commute)
    have "?out ! (k div ?n * ?n + k mod ?n)
            = measure_env (prompts ! (k div ?n)) (trial_reply srv (k0 + k div ?n * ?n + k mod ?n))"
      using trial_outcomes_plan_nth [OF i j] .
    moreover have "success (measure_env (prompts ! (k div ?n))
                     (trial_reply srv (k0 + k div ?n * ?n + k mod ?n)))"
      using assms i j by blast
    ultimately show ?thesis by simp
  qed
  then have "\<forall>m\<in>set ?out. success m"
    by (auto simp: in_set_conv_nth)
  then show ?thesis by simp
qed

lemma posts_after_run:
  "posts (snd (snd (run_benchmark srv self prompts iterations sent)))
     = posts sent + (if probe_fails srv sent then 0 else nat iterations * length prompts)"
proof (cases "probe_fails srv sent")
  case True
  then show ?thesis by (simp add: run_benchmark_unreachable posts_def)
next
  case False
  have "posts (sent @ GET (base_url self @ ''/models'')
          # trial_requests self (trial_plan prompts iterations))
      = posts sent + posts (trial_requests self (trial_plan prompts iterations))"
    by (simp add: posts_def)
  with False show ?thesis
    by (simp add: run_benchmark_reachable posts_trial_requests length_trial_plan)
qed

section \<open>The scenarios evaluated\<close>

lemmas model_defs =
  measure_inference_def measure_env_def try_block_def raise_for_status_def read_result_def
  success_record_def failure_record_def py_truediv_def float_limit_def completion_request_def
  payload_def posts_def gets_def

lemmas scenario_defs =
  hello_body_def bare_body_def hello_env_def bare_env_def refused_env_def error_env_def
  malformed_env_def instant_env_def not_modified_env_def always_def flaky_server_def
  down_server_def local_bench_def

lemma measure_hello:
  "measure_env p hello_env =
     \<lparr>prompt_length = length p, response_length = Some 5, total_tokens = Some (PInt 5),
      latency = Some 1, tokens_per_second = Some 5, memory_usage_mb = Some 1,
      success = True, error = None\<rparr>"
  by (simp add: model_defs scenario_defs)

lemma measure_bare:
  "measure_env p bare_env =
     \<lparr>prompt_length = length p, response_length = Some 5, total_tokens = Some (PInt 0),
      latency = Some 2, tokens_per_second = Some 0, memory_usage_mb = Some 1,
      success = True, error = None\<rparr>"
  by (simp add: model_defs scenario_defs)

lemma measure_error: "measure_env p error_env = failure_record p (HTTPError 500)"
  by (simp add: model_defs scenario_defs)

lemma always_up: "\<not> probe_fails (always env) sent"
  by (simp add: probe_fails_def always_def)

lemma flaky_up: "\<not> probe_fails flaky_server sent"
  by (simp add: probe_fails_def flaky_server_def)

lemma plan_2: "trial_plan [p, q] 2 = [p, p, q, q]"
  by (simp add: trial_plan_def numeral_2_eq_2)

lemma plan_3: "trial_plan [p, q] 3 = [p, p, p, q, q, q]"
  by (simp add: trial_plan_def numeral_3_eq_3)

lemma always_outcomes:
  "trial_outcomes (always env) k plan = map (\<lambda>p. measure_env p env) plan"
  by (induction plan arbitrary: k) (simp_all add: trial_outcomes_Nil trial_outcomes_Cons always_def)

lemma flaky_outcomes:
  "trial_outcomes flaky_server 0 [p, q, r, s] =
     [measure_env p hello_env, measure_env q error_env, measure_env r bare_env,
      measure_env s hello_env]"
  by (simp add: trial_outcomes_Nil trial_outcomes_Cons flaky_server_def)

section \<open>Properties of the metrics collector\<close>

text \<open>C1. Every successful measurement of \<^verbatim>\<open>measure_inference\<close> has a non-zero latency, the
  difference of the two clock samples, and its \<^verbatim>\<open>tokens_per_second\<close> is its \<^verbatim>\<open>total_tokens\<close>
  divided by that latency. When the response carries no \<^verbatim>\<open>usage.total_tokens\<close>, the token
  count is 0 and so is \<^verbatim>\<open>tokens_per_second\<close>.\<close>

theorem measure_inference_tokens_per_second:
  fixes srv self prompt max_tokens sent
  defines "env \<equiv> trial_reply srv (posts sent)"
  defines "m \<equiv> fst (measure_inference srv self prompt max_tokens sent)"
  assumes "success m"
  shows "\<exists>status_code result tokens v l.
           post_outcome env = Response status_code (Some result)
         \<and> l = end_time env - start_time env \<and> l \<noteq> 0
         \<and> total_tokens m = Some tokens \<and> py_number tokens = Some v
         \<and> latency m = Some l
         \<and> tokens_per_second m = Some (v / l)
         \<and> (reported_total_tokens result = None \<longrightarrow>
              total_tokens m = Some (PInt 0) \<and> tokens_per_second m = Some 0)"
proof -
  have m: "m = measure_env prompt env"
    by (simp add: m_def env_def measure_inference_def)
  with assms have "try_block prompt env = Inr m"
    using success_try_block by simp
  then obtain st result content tokens n v where
      out: "post_outcome env = Response st (Some result)"
      and rd: "read_result result = Inr (content, tokens)"
      and num: "py_number tokens = Some v"
      and nz: "end_time env - start_time env \<noteq> 0"
      and rec: "m = \<lparr>prompt_length = length prompt,
                response_length = Some n,
                total_tokens = Some tokens,
                latency = Some (end_time env - start_time env),
                tokens_per_second = Some (v / (end_time env - start_time env)),
                memory_usage_mb =
                  Some (real (end_rss env) / 1024 / 1024 - real (start_rss env) / 1024 / 1024),
                success = True,
                error = None\<rparr>"
    unfolding try_block_Inr success_record_Inr by blast
  have "tokens = PInt 0 \<and> v = 0" if "reported_total_tokens result = None"
    using read_result_no_usage [OF rd that] num by simp
  with out num nz rec show ?thesis by auto
qed

theorem measure_inference_tokens_per_second_witness:
  "success (fst (measure_inference (always hello_env) local_bench ''hi'' 100 []))
   \<and> total_tokens (fst (measure_inference (always hello_env) local_bench ''hi'' 100 [])) = Some (PInt 5)
   \<and> latency (fst (measure_inference (always hello_env) local_bench ''hi'' 100 [])) = Some 1
   \<and> tokens_per_second (fst (measure_inference (always hello_env) local_bench ''hi'' 100 [])) = Some 5
   \<and> success (fst (measure_inference (always bare_env) local_bench ''hi'' 100 []))
   \<and> reported_total_tokens bare_body = None
   \<and> total_tokens (fst (measure_inference (always bare_env) local_bench ''hi'' 100 [])) = Some (PInt 0)
   \<and> latency (fst (measure_inference (always bare_env) local_bench ''hi'' 100 [])) = Some 2
   \<and> tokens_per_second (fst (measure_inference (always bare_env) local_bench ''hi'' 100 [])) = Some 0"
  using measure_inference_tokens_per_second [of "always hello_env" local_bench "''hi''" 100 "[]"]
    measure_inference_tokens_per_second [of "always bare_env" local_bench "''hi''" 100 "[]"]
  by (simp add: model_defs scenario_defs reported_total_tokens_def)






text \<open>C8. For every prompt and \<^verbatim>\<open>max_tokens\<close>, whatever the server answers,
  \<^verbatim>\<open>measure_inference\<close> sends one request, a POST to the chat-completion endpoint whose body
  has exactly one message, of role \<^verbatim>\<open>user\<close> and with the prompt as content, the given
  \<^verbatim>\<open>max_tokens\<close>, temperature 0.7 and streaming off.\<close>

theorem measure_inference_request_body:
  "snd (measure_inference srv self prompt max_tokens sent) =
     sent @ [POST (base_url self @ ''/chat/completions'')
       (PDict [(''messages'', PList [PDict [(''role'', PStr ''user''), (''content'', PStr prompt)]]),
               (''max_tokens'', PInt max_tokens),
               (''temperature'', PFloat (7 / 10)),
               (''stream'', PBool False)])]"
  by (simp add: measure_inference_def completion_request_def payload_def)

theorem measure_inference_request_body_witness:
  "snd (measure_inference (always refused_env) local_bench ''hi'' 64 [])
     = [POST ''http://localhost:1234/v1/chat/completions''
         (PDict [(''messages'', PList [PDict [(''role'', PStr ''user''), (''content'', PStr ''hi'')]]),
                 (''max_tokens'', PInt 64),
                 (''temperature'', PFloat (7 / 10)),
                 (''stream'', PBool False)])]"
  using measure_inference_request_body [of "always refused_env" local_bench "''hi''" 64 "[]"]
  by (simp add: local_bench_def)

section \<open>Properties of the benchmark runner\<close>

text \<open>C4. When the probe of the model-listing endpoint fails (transport error or a status
  other than 200), \<^verbatim>\<open>run_benchmark\<close> sends the probe and nothing else: no request goes to the
  completion endpoint, the results of the object are unchanged, and for a new object they
  are empty.\<close>

theorem connectivity_gate_aborts:
  assumes "probe_fails srv sent"
  shows "snd (snd (run_benchmark srv self prompts iterations sent))
           = sent @ [GET (base_url self @ ''/models'')]
       \<and> posts (snd (snd (run_benchmark srv self prompts iterations sent))) = posts sent
       \<and> results (fst (snd (run_benchmark srv self prompts iterations sent))) = results self
       \<and> results (fst (snd (run_benchmark srv (init host port) prompts iterations sent))) = []"
  using assms by (simp add: run_benchmark_unreachable posts_def init_def)

theorem connectivity_gate_aborts_witness:
  "probe_fails down_server [] \<and> probe_fails down_server [GET ''http://localhost:1234/v1/models'']
   \<and> run_benchmark down_server local_bench [''hi'', ''hello''] 3 []
       = (None, local_bench, [GET ''http://localhost:1234/v1/models''])
   \<and> posts (snd (snd (run_benchmark down_server local_bench [''hi'', ''hello''] 3
        [GET ''http://localhost:1234/v1/models'']))) = 0
   \<and> results (fst (snd (run_benchmark down_server (init ''localhost'' 1234) [''hi'', ''hello''] 3 []))) = []"
  using connectivity_gate_aborts [of down_server "[]" local_bench "[''hi'', ''hello'']" 3 "''localhost''" 1234]
    connectivity_gate_aborts [of down_server "[GET ''http://localhost:1234/v1/models'']" local_bench
       "[''hi'', ''hello'']" 3 "''localhost''" 1234]
  by (simp add: probe_fails_def gets_def posts_def scenario_defs run_benchmark_def
        check_connection_def)

text \<open>C5. With \<open>M\<close> prompts and \<open>N\<close> iterations, a run in which every trial succeeds
  appends exactly \<open>N * M\<close> measurements, and the measurement at position \<open>i * N + j\<close> is
  that of iteration \<open>j\<close> of prompt \<open>i\<close>: all iterations of the first prompt, then all of
  the second, and so on.\<close>

theorem run_benchmark_all_succeed:
  fixes srv self prompts sent
    and iterations :: int
  defines "N \<equiv> nat iterations"
  defines "M \<equiv> length prompts"
  defines "trial_of \<equiv> \<lambda>i j. measure_env (prompts ! i) (trial_reply srv (posts sent + i * N + j))"
  assumes "\<not> probe_fails srv sent"
    and "\<forall>i<M. \<forall>j<N. success (trial_of i j)"
  shows "\<exists>new. results (fst (snd (run_benchmark srv self prompts iterations sent)))
                  = results self @ new
             \<and> length new = N * M
             \<and> (\<forall>i<M. \<forall>j<N. new ! (i * N + j) = trial_of i j)"
proof -
  let ?new = "trial_outcomes srv (posts sent) (trial_plan prompts iterations)"
  have "filter success ?new = ?new"
    using assms(5) unfolding N_def M_def trial_of_def by (rule all_trials_succeed)
  then have "results (fst (snd (run_benchmark srv self prompts iterations sent)))
      = results self @ ?new"
    using assms(4) by (simp add: run_benchmark_reachable)
  moreover have "length ?new = N * M"
    by (simp add: length_trial_outcomes length_trial_plan N_def M_def)
  moreover have "\<forall>i<M. \<forall>j<N. ?new ! (i * N + j) = trial_of i j"
    unfolding N_def M_def trial_of_def by (simp add: trial_outcomes_plan_nth)
  ultimately show ?thesis by blast
qed

theorem run_benchmark_all_succeed_witness:
  "\<not> probe_fails (always hello_env) []
   \<and> success (measure_env ''hi'' hello_env) \<and> success (measure_env ''hello'' hello_env)
   \<and> length
       (results (fst (snd (run_benchmark (always hello_env) local_bench [''hi'', ''hello''] 3 []))))
       = 3 * 2
   \<and> map prompt_length
       (results (fst (snd (run_benchmark (always hello_env) local_bench [''hi'', ''hello''] 3 []))))
       = [2, 2, 2, 5, 5, 5]"
proof -
  let ?run = "run_benchmark (always hello_env) local_bench [''hi'', ''hello''] 3 []"
  have up: "\<not> probe_fails (always hello_env) []"
    by (rule always_up)
  have ok: "\<forall>i<length [''hi'', ''hello'']. \<forall>j<nat 3.
      success (measure_env ([''hi'', ''hello''] ! i)
        (trial_reply (always hello_env) (posts [] + i * nat 3 + j)))"
    by (simp add: always_def measure_hello)
  obtain new where new: "results (fst (snd ?run)) = results local_bench @ new"
      "length new = nat 3 * length [''hi'', ''hello'']"
    using run_benchmark_all_succeed [OF up ok] by blast
  then have len: "length (results (fst (snd ?run))) = 3 * 2"
    by (simp add: local_bench_def)
  have "results (fst (snd ?run))
      = map (\<lambda>p. measure_env p hello_env) (trial_plan [''hi'', ''hello''] 3)"
    by (simp add: run_benchmark_reachable [OF up] always_outcomes measure_hello local_bench_def)
  then have order: "map prompt_length (results (fst (snd ?run))) = [2, 2, 2, 5, 5, 5]"
    by (simp add: plan_3 measure_hello)
  show ?thesis
    using up len order by (simp add: measure_hello)
qed

text \<open>C6. Whatever the outcomes of the trials, the run appends exactly the successful
  measurements, in execution order, and every trial of the plan is executed: a failed
  trial adds nothing and stops nothing.\<close>

theorem run_benchmark_drops_failures:
  fixes srv self prompts iterations sent
  defines "plan \<equiv> trial_plan prompts iterations"
  assumes "\<not> probe_fails srv sent"
  shows "results (fst (snd (run_benchmark srv self prompts iterations sent)))
           = results self @ filter success (trial_outcomes srv (posts sent) plan)
       \<and> snd (snd (run_benchmark srv self prompts iterations sent))
           = sent @ GET (base_url self @ ''/models'') # map (\<lambda>p. completion_request self p 100) plan
       \<and> posts (snd (snd (run_benchmark srv self prompts iterations sent)))
           = posts sent + nat iterations * length prompts"
proof -
  have run: "run_benchmark srv self prompts iterations sent =
       (None,
        self\<lparr>results := results self @ filter success (trial_outcomes srv (posts sent) plan)\<rparr>,
        sent @ GET (base_url self @ ''/models'') # trial_requests self plan)"
    using assms(2) unfolding plan_def by (rule run_benchmark_reachable)
  have "posts (sent @ GET (base_url self @ ''/models'') # trial_requests self plan)
      = posts sent + posts (trial_requests self plan)"
    by (simp add: posts_def)
  then have "posts (snd (snd (run_benchmark srv self prompts iterations sent)))
      = posts sent + nat iterations * length prompts"
    by (simp add: run posts_trial_requests plan_def length_trial_plan)
  then show ?thesis
    by (simp add: run trial_requests_def)
qed

theorem run_benchmark_drops_failures_witness:
  "\<not> probe_fails flaky_server []
   \<and> map success (trial_outcomes flaky_server (posts []) (trial_plan [''hi'', ''hello''] 2))
       = [True, False, True, True]
   \<and> map total_tokens
       (results (fst (snd (run_benchmark flaky_server local_bench [''hi'', ''hello''] 2 []))))
       = [Some (PInt 5), Some (PInt 0), Some (PInt 5)]
   \<and> map prompt_length
       (results (fst (snd (run_benchmark flaky_server local_bench [''hi'', ''hello''] 2 []))))
       = [2, 5, 5]
   \<and> posts (snd (snd (run_benchmark flaky_server local_bench [''hi'', ''hello''] 2 []))) = 4"
proof -
  let ?run = "run_benchmark flaky_server local_bench [''hi'', ''hello''] 2 []"
  have up: "\<not> probe_fails flaky_server []"
    by (rule flaky_up)
  have out: "trial_outcomes flaky_server (posts []) (trial_plan [''hi'', ''hello''] 2)
      = [measure_env ''hi'' hello_env, measure_env ''hi'' error_env,
         measure_env ''hello'' bare_env, measure_env ''hello'' hello_env]"
    by (simp add: plan_2 posts_def flaky_outcomes)
  note drops = run_benchmark_drops_failures [OF up, of local_bench "[''hi'', ''hello'']" 2]
  have "results (fst (snd ?run)) = results local_bench
      @ filter success (trial_outcomes flaky_server (posts []) (trial_plan [''hi'', ''hello''] 2))"
    using drops by (rule conjunct1)
  then have kept: "results (fst (snd ?run))
      = [measure_env ''hi'' hello_env, measure_env ''hello'' bare_env,
         measure_env ''hello'' hello_env]"
    by (simp add: out measure_hello measure_bare measure_error failure_record_def local_bench_def)
  have "posts (snd (snd ?run)) = posts [] + nat 2 * length [''hi'', ''hello'']"
    using drops by (rule conjunct2 [THEN conjunct2])
  then have count: "posts (snd (snd ?run)) = 4"
    by (simp add: posts_def)
  show ?thesis
    using up count
    by (simp add: out kept measure_hello measure_bare measure_error failure_record_def)
qed

text \<open>C7, as stated, fails: \<^verbatim>\<open>run_benchmark\<close> returns \<^verbatim>\<open>None\<close>, not the measurements. In the
  scenario of one prompt and one iteration the call returns \<^verbatim>\<open>None\<close> while the object holds
  one measurement.\<close>

theorem run_benchmark_returns_set_counterexample:
  "fst (run_benchmark (always hello_env) local_bench [''hi''] 1 []) = None
   \<and> results (fst (snd (run_benchmark (always hello_env) local_bench [''hi''] 1 [])))
       = [measure_env ''hi'' hello_env]
   \<and> fst (run_benchmark (always hello_env) local_bench [''hi''] 1 [])
       \<noteq> Some (results (fst (snd (run_benchmark (always hello_env) local_bench [''hi''] 1 []))))"
  by (simp add: run_benchmark_reachable [OF always_up] always_outcomes trial_plan_def
        measure_hello local_bench_def)

text \<open>C7, amended. Every call of \<^verbatim>\<open>run_benchmark\<close> returns \<^verbatim>\<open>None\<close>; the measurements are
  kept in the \<^verbatim>\<open>results\<close> field of the object, the successful ones of this run after those
  already there.\<close>

theorem run_benchmark_returns_None:
  "fst (run_benchmark srv self prompts iterations sent) = None
   \<and> results (fst (snd (run_benchmark srv self prompts iterations sent)))
       = results self @ new_measurements srv prompts iterations sent"
  by (cases "probe_fails srv sent")
     (simp_all add: run_benchmark_unreachable run_benchmark_reachable new_measurements_def)

text \<open>C9. Every completion request that a run sends has \<^verbatim>\<open>max_tokens\<close> 100: the runner calls
  \<^verbatim>\<open>measure_inference\<close> with the prompt only.\<close>

theorem run_benchmark_default_max_tokens:
  "\<exists>new. snd (snd (run_benchmark srv self prompts iterations sent)) = sent @ new
         \<and> (\<forall>r\<in>set new. is_POST r \<longrightarrow> request_max_tokens r = Some (PInt 100))"
proof (cases "probe_fails srv sent")
  case True
  then show ?thesis by (simp add: run_benchmark_unreachable)
next
  case False
  have "request_max_tokens r = Some (PInt 100)"
    if "r \<in> set (trial_requests self plan)" for r plan
    using that
    by (auto simp: trial_requests_def completion_request_def payload_def request_max_tokens_def)
  then show ?thesis
    using False by (simp add: run_benchmark_reachable)
qed

theorem run_benchmark_default_max_tokens_witness:
  "map request_max_tokens
     (filter is_POST (snd (snd (run_benchmark flaky_server local_bench [''hi'', ''hello''] 2 []))))
     = [Some (PInt 100), Some (PInt 100), Some (PInt 100), Some (PInt 100)]"
proof -
  let ?run = "run_benchmark flaky_server local_bench [''hi'', ''hello''] 2 []"
  obtain new where new: "snd (snd ?run) = [] @ new"
      and all: "\<forall>r\<in>set new. is_POST r \<longrightarrow> request_max_tokens r = Some (PInt 100)"
    using run_benchmark_default_max_tokens [of flaky_server local_bench "[''hi'', ''hello'']" 2 "[]"]
    by blast
  have "posts (snd (snd ?run)) = 4"
    by (simp add: run_benchmark_reachable [OF flaky_up] posts_def plan_2 trial_requests_def
          completion_request_def)
  then have len: "length (filter is_POST new) = 4"
    by (simp add: new posts_def)
  have "map request_max_tokens (filter is_POST new)
      = replicate (length (filter is_POST new)) (Some (PInt 100))"
    using all by (intro replicate_eqI) auto
  then show ?thesis
    by (simp add: new len numeral_eq_Suc)
qed

text \<open>C10. The results are never cleared: after a second run on the same object they are
  the results before the first run, then the successful measurements of the first run, then
  those of the second.\<close>

theorem results_accumulate_across_runs:
  fixes srv self sent
    and prompts1 prompts2 :: "string list"
    and n1 n2 :: int
  defines "run1 \<equiv> run_benchmark srv self prompts1 n1 sent"
  defines "run2 \<equiv> run_benchmark srv (fst (snd run1)) prompts2 n2 (snd (snd run1))"
  shows "results (fst (snd run1)) = results self @ new_measurements srv prompts1 n1 sent
       \<and> results (fst (snd run2))
           = results self @ new_measurements srv prompts1 n1 sent
               @ new_measurements srv prompts2 n2 (snd (snd run1))"
  unfolding run1_def run2_def by (simp add: run_benchmark_results)

theorem results_accumulate_across_runs_witness:
  "map prompt_length
     (results (fst (snd (run_benchmark flaky_server local_bench [''hi'', ''hello''] 2 []))))
     = [2, 5, 5]
   \<and> map prompt_length
     (results (fst (snd (run_benchmark flaky_server
        (fst (snd (run_benchmark flaky_server local_bench [''hi'', ''hello''] 2 [])))
        [''hey''] 1
        (snd (snd (run_benchmark flaky_server local_bench [''hi'', ''hello''] 2 [])))))))
     = [2, 5, 5, 3]"
proof -
  let ?run1 = "run_benchmark flaky_server local_bench [''hi'', ''hello''] 2 []"
  let ?run2 = "run_benchmark flaky_server (fst (snd ?run1)) [''hey''] 1 (snd (snd ?run1))"
  have sent1: "posts (snd (snd ?run1)) = 4"
    by (simp add: posts_after_run flaky_up) (simp add: posts_def)
  have new1: "new_measurements flaky_server [''hi'', ''hello''] 2 []
      = [measure_env ''hi'' hello_env, measure_env ''hello'' bare_env,
         measure_env ''hello'' hello_env]"
    by (simp add: new_measurements_def flaky_up plan_2 posts_def flaky_outcomes
          measure_hello measure_bare measure_error failure_record_def)
  have fifth: "trial_reply flaky_server 4 = hello_env"
    by (simp add: flaky_server_def)
  have new2: "new_measurements flaky_server [''hey''] 1 (snd (snd ?run1))
      = [measure_env ''hey'' hello_env]"
    by (simp add: new_measurements_def flaky_up sent1 trial_plan_def trial_outcomes_Cons
          trial_outcomes_Nil fifth measure_hello)
  note acc = results_accumulate_across_runs
    [of flaky_server local_bench "[''hi'', ''hello'']" 2 "[]" "[''hey'']" 1]
  have empty: "results local_bench = []"
    by (simp add: local_bench_def)
  have "results (fst (snd ?run1)) = results local_bench
      @ new_measurements flaky_server [''hi'', ''hello''] 2 []"
    using acc by (rule conjunct1)
  then have first: "map prompt_length (results (fst (snd ?run1))) = [2, 5, 5]"
    by (simp only: new1 empty append_Nil) (simp add: measure_hello measure_bare)
  have "results (fst (snd ?run2)) = results local_bench
      @ new_measurements flaky_server [''hi'', ''hello''] 2 []
      @ new_measurements flaky_server [''hey''] 1 (snd (snd ?run1))"
    using acc by (rule conjunct2)
  then have "map prompt_length (results (fst (snd ?run2))) = [2, 5, 5, 3]"
    by (simp only: new1 new2 empty append_Nil) (simp add: measure_hello measure_bare)
  with first show ?thesis
    by (rule conjI)
qed

end
